theory Spec2Isabelle
  imports Main "HOL-Library.Product_Lexorder"
begin

section \<open>The availability subsystem of acecommerce/models.py\<close>

text \<open>
  Conventions of the embedding.
  \<^item> A model class is a \<^theory_text>\<open>record\<close> of its fields. The primary key that the
    ORM adds to every model is the field \<open>..._pk\<close>; a foreign key holds the primary key
    of the row it points to. \<open>Availability.availability_type\<close> is read only through
    \<open>self.availability_type.code\<close>, so the referenced row is held in place.
  \<^item> The tables of the database are lists of rows. The database also carries the range
    of values that an integer column of its backend stores (on SQLite \<open>-2^63\<close> and
    \<open>2^63 - 1\<close>); the backend is configured outside models.py.
  \<^item> A method takes the receiver \<open>self\<close>, its arguments and the database, and returns
    the outcome of the call: the exception raised (\<open>Inl\<close>) or the value returned
    (\<open>Inr\<close>), together with the receiver and the database as the call leaves them. An
    exception keeps whatever was assigned or saved before it was raised.
  \<^item> Python's integers are unbounded: \<open>int\<close>. A \<open>datetime.date\<close> is the triple
    (year, month, day), compared lexicographically as Python compares dates.
  \<^item> \<open>date.today()\<close> is an input of the call.
\<close>

subsection \<open>Exceptions\<close>

text \<open>
  \<open>QuantityExceedsAvailable\<close> is the exception class of models.py. The next three are
  what the ORM's \<open>objects.get(**kwargs)\<close> raises: \<open>DoesNotExist\<close> when no row matches,
  \<open>MultipleObjectsReturned\<close> when several do, \<open>FieldError\<close> when a keyword is not
  a field of the model. The next two are what \<open>save()\<close> raises: \<open>OverflowError\<close>
  when a value does not fit its integer column, \<open>IntegrityError\<close> when the write
  breaks a constraint declared on the model. \<open>OtherError\<close> is an exception raised
  outside models.py.
\<close>

datatype error =
    QuantityExceedsAvailable
  | DoesNotExist
  | MultipleObjectsReturned
  | FieldError
  | OverflowError
  | IntegrityError
  | OtherError string

subsection \<open>Models\<close>

type_synonym date = "nat \<times> nat \<times> nat"

record AvailabilityType =
  name :: string
  code :: string

record Availability =
  availability_pk :: nat
  availability_type :: AvailabilityType

record BooleanAvailability =
  boolean_pk :: nat
  availability :: nat
  is_available :: bool

record CountdownAvailability =
  countdown_pk :: nat
  availability :: nat
  num_products :: int

record DateRangeAvailability =
  daterange_pk :: nat
  start_date :: "date option"
  end_date :: "date option"

record database =
  boolean_rows :: "BooleanAvailability list"
  countdown_rows :: "CountdownAvailability list"
  daterange_rows :: "DateRangeAvailability list"
  integer_min :: int
  integer_max :: int

type_synonym ('a, 's) outcome = "(error + 'a) \<times> 's \<times> database"

subsection \<open>The ORM operations the methods call\<close>

text \<open>
  \<open>Model.objects.get(field=value)\<close>: the single row that matches, \<open>DoesNotExist\<close> when
  there is none, \<open>MultipleObjectsReturned\<close> when there are several.
\<close>

definition objects_get :: "('r \<Rightarrow> bool) \<Rightarrow> 'r list \<Rightarrow> error + 'r" where
  "objects_get p rows =
     (case filter p rows of
        [] \<Rightarrow> Inl DoesNotExist
      | [r] \<Rightarrow> Inr r
      | _ \<Rightarrow> Inl MultipleObjectsReturned)"

text \<open>
  \<open>instance.save()\<close>, once the database accepts the write: the row with the instance's
  primary key is overwritten; when the table has no such row, the instance is inserted.
\<close>

definition save_row :: "('r \<Rightarrow> nat) \<Rightarrow> 'r \<Rightarrow> 'r list \<Rightarrow> 'r list" where
  "save_row key r rows =
     (if key r \<in> set (map key rows)
      then map (\<lambda>x. if key x = key r then r else x) rows
      else rows @ [r])"

text \<open>
  What the database checks before it writes a CountdownAvailability.
  \<open>num_products = models.IntegerField(default=0)\<close>: the value has to fit the integer
  column. \<open>availability = models.ForeignKey(Availability,unique=True)\<close>: no row with
  another primary key may hold the same \<open>availability\<close>.
\<close>

definition in_integer_range :: "database \<Rightarrow> int \<Rightarrow> bool" where
  "in_integer_range db v = (integer_min db \<le> v \<and> v \<le> integer_max db)"

definition availability_taken :: "CountdownAvailability \<Rightarrow> CountdownAvailability list \<Rightarrow> bool" where
  "availability_taken self rows =
     (filter (\<lambda>x. countdown_pk x \<noteq> countdown_pk self
                  \<and> CountdownAvailability.availability x = CountdownAvailability.availability self)
        rows \<noteq> [])"

text \<open>
  \<open>self.save()\<close> on a CountdownAvailability: the value out of range raises
  \<open>OverflowError\<close>, the \<open>availability\<close> taken by another row raises
  \<open>IntegrityError\<close>, and in both cases nothing is written; otherwise the row is written.
\<close>

definition CountdownAvailability_save :: "CountdownAvailability \<Rightarrow> database \<Rightarrow> error + database" where
  "CountdownAvailability_save self db =
     (if in_integer_range db (num_products self)
      then
        (if availability_taken self (countdown_rows db)
         then Inl IntegrityError
         else Inr (db\<lparr>countdown_rows := save_row countdown_pk self (countdown_rows db)\<rparr>))
      else Inl OverflowError)"

subsection \<open>AvailabilityMixin\<close>

definition AvailabilityMixin_quantity_available :: "'s \<Rightarrow> int \<Rightarrow> database \<Rightarrow> (bool, 's) outcome" where
  "AvailabilityMixin_quantity_available self quantity db = (Inr True, self, db)"

definition AvailabilityMixin_record_purchase :: "'s \<Rightarrow> int \<Rightarrow> database \<Rightarrow> (unit, 's) outcome" where
  "AvailabilityMixin_record_purchase self quantity db = (Inr (), self, db)"

subsection \<open>BooleanAvailability\<close>

definition BooleanAvailability_available ::
  "BooleanAvailability \<Rightarrow> database \<Rightarrow> (bool, BooleanAvailability) outcome" where
  "BooleanAvailability_available self db = (Inr (is_available self), self, db)"

text \<open>
  \<open>class BooleanAvailability(models.Model, AvailabilityMixin)\<close> defines neither
  \<open>quantity_available\<close> nor \<open>record_purchase\<close>, and \<open>models.Model\<close> has no method
  of either name: both resolve to the mixin's.
\<close>

definition BooleanAvailability_quantity_available ::
  "BooleanAvailability \<Rightarrow> int \<Rightarrow> database \<Rightarrow> (bool, BooleanAvailability) outcome" where
  "BooleanAvailability_quantity_available = AvailabilityMixin_quantity_available"

definition BooleanAvailability_record_purchase ::
  "BooleanAvailability \<Rightarrow> int \<Rightarrow> database \<Rightarrow> (unit, BooleanAvailability) outcome" where
  "BooleanAvailability_record_purchase = AvailabilityMixin_record_purchase"

subsection \<open>CountdownAvailability\<close>

text \<open>
  In \<open>record_purchase\<close> the assignment to \<open>self.num_products\<close> comes before
  \<open>self.save()\<close>, and the body has no handler: when \<open>save\<close> raises, the call raises
  with the receiver already assigned and the database as it was.
\<close>

definition CountdownAvailability_available ::
  "CountdownAvailability \<Rightarrow> database \<Rightarrow> (bool, CountdownAvailability) outcome" where
  "CountdownAvailability_available self db =
     (Inr (if num_products self > 0 then True else False), self, db)"

definition CountdownAvailability_quantity_available ::
  "CountdownAvailability \<Rightarrow> int \<Rightarrow> database \<Rightarrow> (bool, CountdownAvailability) outcome" where
  "CountdownAvailability_quantity_available self quantity db =
     (Inr (if quantity \<le> num_products self then True else False), self, db)"

definition CountdownAvailability_record_purchase ::
  "CountdownAvailability \<Rightarrow> int \<Rightarrow> database \<Rightarrow> (unit, CountdownAvailability) outcome" where
  "CountdownAvailability_record_purchase self quantity db =
     (if quantity > num_products self
      then (Inl QuantityExceedsAvailable, self, db)
      else
        (let self' = self\<lparr>num_products := max (num_products self - quantity) 0\<rparr>
         in (case CountdownAvailability_save self' db of
               Inl e \<Rightarrow> (Inl e, self', db)
             | Inr db' \<Rightarrow> (Inr (), self', db'))))"

subsection \<open>DateRangeAvailability\<close>

text \<open>
  A \<open>datetime.date\<close> is always true in a condition, so \<open>self.start_date and ...\<close>
  tests that the field is not \<open>None\<close>.
\<close>

definition DateRangeAvailability_available ::
  "date \<Rightarrow> DateRangeAvailability \<Rightarrow> database \<Rightarrow> (bool, DateRangeAvailability) outcome" where
  "DateRangeAvailability_available today self db =
     (if start_date self \<noteq> None \<and> today < the (start_date self)
      then (Inr False, self, db)
      else if end_date self \<noteq> None \<and> today > the (end_date self)
      then (Inr False, self, db)
      else (Inr True, self, db))"

definition DateRangeAvailability_quantity_available ::
  "DateRangeAvailability \<Rightarrow> int \<Rightarrow> database \<Rightarrow> (bool, DateRangeAvailability) outcome" where
  "DateRangeAvailability_quantity_available = AvailabilityMixin_quantity_available"

definition DateRangeAvailability_record_purchase ::
  "DateRangeAvailability \<Rightarrow> int \<Rightarrow> database \<Rightarrow> (unit, DateRangeAvailability) outcome" where
  "DateRangeAvailability_record_purchase = AvailabilityMixin_record_purchase"

subsection \<open>Availability\<close>

text \<open>
  \<open>gf\<close> is imported from acecommerce.utils and takes the type's code to a model class.
  It is a parameter of the model: it returns one of the three strategy classes of
  models.py, or raises.
\<close>

datatype model_class =
    BooleanAvailabilityClass
  | CountdownAvailabilityClass
  | DateRangeAvailabilityClass

text \<open>The object that \<open>helper\<close> returns is an instance of one of the three classes.\<close>

datatype strategy =
    BooleanHelper BooleanAvailability
  | CountdownHelper CountdownAvailability
  | DateRangeHelper DateRangeAvailability

text \<open>
  \<open>gf(self.availability_type.code).objects.get(availability=self)\<close>. The keyword
  \<open>availability\<close> is a field of BooleanAvailability and of CountdownAvailability, where
  it selects the rows whose foreign key is this Availability. DateRangeAvailability
  declares \<open>start_date\<close> and \<open>end_date\<close> only, so there the ORM rejects the keyword
  with \<open>FieldError\<close>, whatever the table holds.
\<close>

definition Availability_helper ::
  "(string \<Rightarrow> error + model_class) \<Rightarrow> Availability \<Rightarrow> database \<Rightarrow> error + strategy" where
  "Availability_helper gf self db =
     (case gf (code (availability_type self)) of
        Inl e \<Rightarrow> Inl e
      | Inr BooleanAvailabilityClass \<Rightarrow>
          (case objects_get (\<lambda>r. BooleanAvailability.availability r = availability_pk self)
                  (boolean_rows db) of
             Inl e \<Rightarrow> Inl e
           | Inr h \<Rightarrow> Inr (BooleanHelper h))
      | Inr CountdownAvailabilityClass \<Rightarrow>
          (case objects_get (\<lambda>r. CountdownAvailability.availability r = availability_pk self)
                  (countdown_rows db) of
             Inl e \<Rightarrow> Inl e
           | Inr h \<Rightarrow> Inr (CountdownHelper h))
      | Inr DateRangeAvailabilityClass \<Rightarrow> Inl FieldError)"

text \<open>
  \<open>self.helper.available()\<close> and \<open>self.helper.record_purchase(quantity=quantity)\<close>:
  the method of the helper's class runs on the helper; an exception of \<open>helper\<close> or of
  the method leaves the call as it is, since neither body has a handler.
\<close>

definition Availability_available ::
  "(string \<Rightarrow> error + model_class) \<Rightarrow> date \<Rightarrow> Availability \<Rightarrow> database
     \<Rightarrow> (bool, Availability) outcome" where
  "Availability_available gf today self db =
     (case Availability_helper gf self db of
        Inl e \<Rightarrow> (Inl e, self, db)
      | Inr (BooleanHelper h) \<Rightarrow>
          (case BooleanAvailability_available h db of (r, _, db') \<Rightarrow> (r, self, db'))
      | Inr (CountdownHelper h) \<Rightarrow>
          (case CountdownAvailability_available h db of (r, _, db') \<Rightarrow> (r, self, db'))
      | Inr (DateRangeHelper h) \<Rightarrow>
          (case DateRangeAvailability_available today h db of (r, _, db') \<Rightarrow> (r, self, db')))"

definition Availability_record_purchase ::
  "(string \<Rightarrow> error + model_class) \<Rightarrow> Availability \<Rightarrow> int \<Rightarrow> database
     \<Rightarrow> (unit, Availability) outcome" where
  "Availability_record_purchase gf self quantity db =
     (case Availability_helper gf self db of
        Inl e \<Rightarrow> (Inl e, self, db)
      | Inr (BooleanHelper h) \<Rightarrow>
          (case BooleanAvailability_record_purchase h quantity db of
             (r, _, db') \<Rightarrow> (r, self, db'))
      | Inr (CountdownHelper h) \<Rightarrow>
          (case CountdownAvailability_record_purchase h quantity db of
             (r, _, db') \<Rightarrow> (r, self, db'))
      | Inr (DateRangeHelper h) \<Rightarrow>
          (case DateRangeAvailability_record_purchase h quantity db of
             (r, _, db') \<Rightarrow> (r, self, db')))"

text \<open>
  One resolver, for concrete inputs: the code is the name of the class, and any other code
  makes \<open>gf\<close> raise. What is proved with a variable \<open>gf\<close> holds for every resolver.
\<close>

definition gf_class_name :: "string \<Rightarrow> error + model_class" where
  "gf_class_name c =
     (if c = ''BooleanAvailability'' then Inr BooleanAvailabilityClass
      else if c = ''CountdownAvailability'' then Inr CountdownAvailabilityClass
      else if c = ''DateRangeAvailability'' then Inr DateRangeAvailabilityClass
      else Inl (OtherError ''gf''))"

subsection \<open>A caller making several purchases\<close>

text \<open>
  The calls \<open>record_purchase(q)\<close> for the quantities of a list, in order, on one
  CountdownAvailability; the caller catches the exception of a call and goes on with the
  next call. The result is the receiver and the database after the last call.
\<close>

fun record_purchases ::
  "CountdownAvailability \<Rightarrow> int list \<Rightarrow> database \<Rightarrow> CountdownAvailability \<times> database" where
  "record_purchases self [] db = (self, db)"
| "record_purchases self (q # qs) db =
     (case CountdownAvailability_record_purchase self q db of
        (_, self', db') \<Rightarrow> record_purchases self' qs db')"

subsection \<open>Calls that overlap\<close>

text \<open>
  \<open>Availability.record_purchase\<close> touches the database in two steps: \<open>self.helper\<close>
  reads the strategy row into a fresh instance, and \<open>record_purchase\<close> of that instance
  checks and decrements the instance's own \<open>num_products\<close> and saves it. Neither
  models.py nor the call opens a transaction, takes a lock or updates the column in place,
  so between the two steps of one call the steps of another call may run.
  \<open>helper_record_purchase\<close> is the second step: the method of the instance's class.
\<close>

definition helper_record_purchase ::
  "strategy \<Rightarrow> int \<Rightarrow> database \<Rightarrow> (error + unit) \<times> database" where
  "helper_record_purchase h quantity db =
     (case h of
        BooleanHelper b \<Rightarrow>
          (case BooleanAvailability_record_purchase b quantity db of (r, _, db') \<Rightarrow> (r, db'))
      | CountdownHelper c \<Rightarrow>
          (case CountdownAvailability_record_purchase c quantity db of (r, _, db') \<Rightarrow> (r, db'))
      | DateRangeHelper d \<Rightarrow>
          (case DateRangeAvailability_record_purchase d quantity db of (r, _, db') \<Rightarrow> (r, db')))"

text \<open>
  Several calls \<open>record_purchase(quantity)\<close> on one Availability, numbered from 0. A
  schedule is the order in which their steps run: \<open>Read i\<close> is the read of call \<open>i\<close>,
  \<open>Write i\<close> its second step on the instance it has read. The state of a run is the
  instance each call holds, the outcome of each call that has ended, and the database. A
  call whose read raises ends there and holds no instance; \<open>Write i\<close> of a call that
  holds no instance does nothing.
\<close>

datatype step = Read nat | Write nat

record calls =
  instances :: "nat \<Rightarrow> strategy option"
  outcomes :: "nat \<Rightarrow> (error + unit) option"
  store :: database

fun run_step ::
  "(string \<Rightarrow> error + model_class) \<Rightarrow> Availability \<Rightarrow> int \<Rightarrow> step \<Rightarrow> calls \<Rightarrow> calls" where
  "run_step gf a quantity (Read i) c =
     (case Availability_helper gf a (store c) of
        Inl e \<Rightarrow> c\<lparr>instances := (instances c)(i := None), outcomes := (outcomes c)(i \<mapsto> Inl e)\<rparr>
      | Inr h \<Rightarrow> c\<lparr>instances := (instances c)(i \<mapsto> h)\<rparr>)"
| "run_step gf a quantity (Write i) c =
     (case instances c i of
        None \<Rightarrow> c
      | Some h \<Rightarrow>
          (case helper_record_purchase h quantity (store c) of
             (r, db') \<Rightarrow> c\<lparr>outcomes := (outcomes c)(i \<mapsto> r), store := db'\<rparr>))"

definition run_schedule ::
  "(string \<Rightarrow> error + model_class) \<Rightarrow> Availability \<Rightarrow> int \<Rightarrow> step list \<Rightarrow> database \<Rightarrow> calls" where
  "run_schedule gf a quantity steps db =
     fold (run_step gf a quantity) steps
       \<lparr>instances = (\<lambda>i. None), outcomes = (\<lambda>i. None), store = db\<rparr>"

text \<open>The schedule of \<open>n\<close> calls made one after another.\<close>

definition one_after_another :: "nat \<Rightarrow> step list" where
  "one_after_another n = concat (map (\<lambda>i. [Read i, Write i]) [0..<n])"

section \<open>Properties\<close>

subsection \<open>CountdownAvailability.quantity_available\<close>

text \<open>
  C4. For a CountdownAvailability with \<open>num_products = N\<close> and every integer \<open>q\<close>,
  \<open>quantity_available(q)\<close> returns true if and only if \<open>q \<le> N\<close>; it raises nothing
  and leaves the receiver and the database as they were.
\<close>

theorem quantity_available_iff_le:
  "CountdownAvailability_quantity_available self q db = (Inr (q \<le> num_products self), self, db)"
  by (simp add: CountdownAvailability_quantity_available_def)

subsection \<open>CountdownAvailability.record_purchase\<close>




lemma save_never_quantity_exceeds:
  "CountdownAvailability_save self db \<noteq> Inl QuantityExceedsAvailable"
  by (simp add: CountdownAvailability_save_def)

lemma record_purchase_raise:
  "num_products self < q \<Longrightarrow>
   CountdownAvailability_record_purchase self q db = (Inl QuantityExceedsAvailable, self, db)"
  by (simp add: CountdownAvailability_record_purchase_def)

lemma record_purchase_ok:
  assumes "q \<le> num_products self"
    and "in_integer_range db (num_products self - q)"
    and "\<not> availability_taken self (countdown_rows db)"
  shows "CountdownAvailability_record_purchase self q db =
     (Inr (), self\<lparr>num_products := num_products self - q\<rparr>,
      db\<lparr>countdown_rows :=
           save_row countdown_pk (self\<lparr>num_products := num_products self - q\<rparr>)
             (countdown_rows db)\<rparr>)"
proof -
  have "max (num_products self - q) 0 = num_products self - q"
    using assms(1) by simp
  with assms show ?thesis
    by (simp add: CountdownAvailability_record_purchase_def CountdownAvailability_save_def
          availability_taken_def Let_def)
qed


text \<open>
  C1. For a CountdownAvailability with \<open>num_products = N\<close> and every quantity \<open>q\<close>,
  \<open>record_purchase(q)\<close> raises QuantityExceedsAvailable if and only if \<open>q > N\<close>; and
  when it raises QuantityExceedsAvailable, nothing has been assigned or saved: the receiver
  (so \<open>num_products\<close>) and the database are as they were before the call.
\<close>

theorem record_purchase_raises_iff_exceeds:
  "(fst (CountdownAvailability_record_purchase self q db) = Inl QuantityExceedsAvailable
      \<longleftrightarrow> q > num_products self)
   \<and> (fst (CountdownAvailability_record_purchase self q db) = Inl QuantityExceedsAvailable \<longrightarrow>
          CountdownAvailability_record_purchase self q db
            = (Inl QuantityExceedsAvailable, self, db))"
proof (cases "q > num_products self")
  case True
  then show ?thesis by (simp add: record_purchase_raise)
next
  case False
  have "fst (CountdownAvailability_record_purchase self q db) \<noteq> Inl QuantityExceedsAvailable"
    using False save_never_quantity_exceeds
      [of "self\<lparr>num_products := max (num_products self - q) 0\<rparr>" db]
    by (auto simp: CountdownAvailability_record_purchase_def Let_def split: sum.splits)
  with False show ?thesis by simp
qed

theorem record_purchase_raises_iff_exceeds_witness:
  "fst (CountdownAvailability_record_purchase
          \<lparr>countdown_pk = 1, availability = 7, num_products = 2\<rparr> 3
          \<lparr>boolean_rows = [],
           countdown_rows = [\<lparr>countdown_pk = 1, availability = 7, num_products = 2\<rparr>],
           daterange_rows = [],
           integer_min = - 9223372036854775808, integer_max = 9223372036854775807\<rparr>) = Inl QuantityExceedsAvailable
   \<and> CountdownAvailability_record_purchase
          \<lparr>countdown_pk = 1, availability = 7, num_products = 2\<rparr> 3
          \<lparr>boolean_rows = [],
           countdown_rows = [\<lparr>countdown_pk = 1, availability = 7, num_products = 2\<rparr>],
           daterange_rows = [],
           integer_min = - 9223372036854775808, integer_max = 9223372036854775807\<rparr>
       = (Inl QuantityExceedsAvailable, \<lparr>countdown_pk = 1, availability = 7, num_products = 2\<rparr>,
          \<lparr>boolean_rows = [],
           countdown_rows = [\<lparr>countdown_pk = 1, availability = 7, num_products = 2\<rparr>],
           daterange_rows = [],
           integer_min = - 9223372036854775808, integer_max = 9223372036854775807\<rparr>)"
proof -
  let ?self = "\<lparr>countdown_pk = 1, availability = 7, num_products = 2\<rparr>"
  let ?db = "\<lparr>boolean_rows = [], countdown_rows = [?self], daterange_rows = [],
               integer_min = - 9223372036854775808, integer_max = 9223372036854775807\<rparr>"
  note t = record_purchase_raises_iff_exceeds [of ?self 3 ?db]
  have gt: "(3::int) > num_products ?self" by simp
  from t gt have r: "fst (CountdownAvailability_record_purchase ?self 3 ?db) = Inl QuantityExceedsAvailable"
    by blast
  with t have "CountdownAvailability_record_purchase ?self 3 ?db
                 = (Inl QuantityExceedsAvailable, ?self, ?db)"
    by blast
  with r show ?thesis by blast
qed




subsection \<open>Sequences of purchases\<close>

lemma record_purchase_nonneg:
  "0 \<le> num_products self \<Longrightarrow>
   0 \<le> num_products (fst (snd (CountdownAvailability_record_purchase self q db)))"
  by (simp add: CountdownAvailability_record_purchase_def Let_def split: sum.splits)

text \<open>
  C3. Non-negativity: for a CountdownAvailability that starts with \<open>num_products \<ge> 0\<close>,
  after every sequence of \<open>record_purchase\<close> calls, each raising
  QuantityExceedsAvailable or completing, \<open>num_products \<ge> 0\<close>. The sequences include
  every prefix of a sequence, so \<open>num_products\<close> is never negative on the way.
\<close>

theorem num_products_never_negative:
  "0 \<le> num_products self \<Longrightarrow> 0 \<le> num_products (fst (record_purchases self qs db))"
proof (induction qs arbitrary: self db)
  case Nil
  then show ?case by simp
next
  case (Cons q qs)
  obtain res self' db' where
    step: "CountdownAvailability_record_purchase self q db = (res, self', db')"
    by (cases "CountdownAvailability_record_purchase self q db") auto
  from record_purchase_nonneg [OF Cons.prems, of q db] step
  have "0 \<le> num_products self'" by simp
  then have "0 \<le> num_products (fst (record_purchases self' qs db'))"
    by (rule Cons.IH)
  with step show ?case by simp
qed

theorem num_products_never_negative_witness:
  "0 \<le> num_products \<lparr>countdown_pk = 1, availability = 7, num_products = 5\<rparr>
   \<and> num_products (fst (record_purchases
        \<lparr>countdown_pk = 1, availability = 7, num_products = 5\<rparr> [3, 3, -4, 6]
        \<lparr>boolean_rows = [],
           countdown_rows = [\<lparr>countdown_pk = 1, availability = 7, num_products = 5\<rparr>],
           daterange_rows = [],
           integer_min = - 9223372036854775808, integer_max = 9223372036854775807\<rparr>)) = 0
   \<and> 0 \<le> num_products (fst (record_purchases
        \<lparr>countdown_pk = 1, availability = 7, num_products = 5\<rparr> [3, 3, -4, 6]
        \<lparr>boolean_rows = [],
           countdown_rows = [\<lparr>countdown_pk = 1, availability = 7, num_products = 5\<rparr>],
           daterange_rows = [],
           integer_min = - 9223372036854775808, integer_max = 9223372036854775807\<rparr>))"
proof -
  let ?self = "\<lparr>countdown_pk = 1, availability = 7, num_products = 5\<rparr>"
  let ?db = "\<lparr>boolean_rows = [], countdown_rows = [?self], daterange_rows = [],
               integer_min = - 9223372036854775808, integer_max = 9223372036854775807\<rparr>"
  have h: "0 \<le> num_products ?self" by simp
  have v: "num_products (fst (record_purchases ?self [3, 3, -4, 6] ?db)) = 0"
    by (simp add: CountdownAvailability_record_purchase_def CountdownAvailability_save_def
          in_integer_range_def availability_taken_def save_row_def Let_def)
  from h v num_products_never_negative [OF h, of "[3, 3, -4, 6]" ?db]
  show ?thesis by blast
qed

subsection \<open>Quantities that are zero or negative\<close>




subsection \<open>DateRangeAvailability.available\<close>

lemma date_range_available_eq:
  "DateRangeAvailability_available T self db =
     (Inr (\<not> (\<exists>s. start_date self = Some s \<and> T < s)
           \<and> \<not> (\<exists>e. end_date self = Some e \<and> e < T)), self, db)"
  by (cases "start_date self"; cases "end_date self")
     (simp_all add: DateRangeAvailability_available_def)

text \<open>
  C5. For a DateRangeAvailability, \<open>available()\<close> on day \<open>T\<close> returns false when
  \<open>start_date\<close> is set and \<open>T < start_date\<close>; otherwise false when \<open>end_date\<close> is
  set and \<open>T > end_date\<close>; otherwise true. In particular: both bounds null gives true;
  only start set with \<open>T\<close> before it gives false; only end set with \<open>T\<close> after it gives
  false; both set with \<open>T\<close> within the range gives true; a null bound removes the
  restriction of its side. The call raises nothing and changes nothing.
\<close>

theorem date_range_available_cases:
  "snd (DateRangeAvailability_available T self db) = (self, db)
   \<and> (\<forall>s. start_date self = Some s \<and> T < s \<longrightarrow>
          fst (DateRangeAvailability_available T self db) = Inr False)
   \<and> (\<forall>e. \<not> (\<exists>s. start_date self = Some s \<and> T < s) \<and> end_date self = Some e \<and> T > e \<longrightarrow>
          fst (DateRangeAvailability_available T self db) = Inr False)
   \<and> (\<not> (\<exists>s. start_date self = Some s \<and> T < s) \<and> \<not> (\<exists>e. end_date self = Some e \<and> T > e) \<longrightarrow>
          fst (DateRangeAvailability_available T self db) = Inr True)
   \<and> (start_date self = None \<and> end_date self = None \<longrightarrow>
          fst (DateRangeAvailability_available T self db) = Inr True)
   \<and> (\<forall>s. start_date self = Some s \<and> end_date self = None \<and> T < s \<longrightarrow>
          fst (DateRangeAvailability_available T self db) = Inr False)
   \<and> (\<forall>e. start_date self = None \<and> end_date self = Some e \<and> T > e \<longrightarrow>
          fst (DateRangeAvailability_available T self db) = Inr False)
   \<and> (\<forall>s e. start_date self = Some s \<and> end_date self = Some e \<and> s \<le> T \<and> T \<le> e \<longrightarrow>
          fst (DateRangeAvailability_available T self db) = Inr True)
   \<and> (start_date self = None \<longrightarrow>
          fst (DateRangeAvailability_available T self db)
            = Inr (\<not> (\<exists>e. end_date self = Some e \<and> T > e)))
   \<and> (end_date self = None \<longrightarrow>
          fst (DateRangeAvailability_available T self db)
            = Inr (\<not> (\<exists>s. start_date self = Some s \<and> T < s)))"
  unfolding date_range_available_eq by auto

theorem date_range_available_cases_witness:
  "fst (DateRangeAvailability_available (2024, 6, 15)
          \<lparr>daterange_pk = 1, start_date = None, end_date = None\<rparr>
          \<lparr>boolean_rows = [], countdown_rows = [], daterange_rows = [],
           integer_min = - 9223372036854775808, integer_max = 9223372036854775807\<rparr>) = Inr True
   \<and> fst (DateRangeAvailability_available (2023, 12, 31)
          \<lparr>daterange_pk = 1, start_date = Some (2024, 1, 1), end_date = None\<rparr>
          \<lparr>boolean_rows = [], countdown_rows = [], daterange_rows = [],
           integer_min = - 9223372036854775808, integer_max = 9223372036854775807\<rparr>) = Inr False
   \<and> fst (DateRangeAvailability_available (2025, 1, 1)
          \<lparr>daterange_pk = 1, start_date = None, end_date = Some (2024, 12, 31)\<rparr>
          \<lparr>boolean_rows = [], countdown_rows = [], daterange_rows = [],
           integer_min = - 9223372036854775808, integer_max = 9223372036854775807\<rparr>) = Inr False
   \<and> fst (DateRangeAvailability_available (2024, 6, 15)
          \<lparr>daterange_pk = 1, start_date = Some (2024, 1, 1), end_date = Some (2024, 12, 31)\<rparr>
          \<lparr>boolean_rows = [], countdown_rows = [], daterange_rows = [],
           integer_min = - 9223372036854775808, integer_max = 9223372036854775807\<rparr>) = Inr True
   \<and> fst (DateRangeAvailability_available (2025, 1, 1)
          \<lparr>daterange_pk = 1, start_date = Some (2024, 1, 1), end_date = Some (2024, 12, 31)\<rparr>
          \<lparr>boolean_rows = [], countdown_rows = [], daterange_rows = [],
           integer_min = - 9223372036854775808, integer_max = 9223372036854775807\<rparr>) = Inr False"
proof -
  let ?db = "\<lparr>boolean_rows = [], countdown_rows = [], daterange_rows = [],
           integer_min = - 9223372036854775808, integer_max = 9223372036854775807\<rparr>"
  let ?none = "\<lparr>daterange_pk = 1, start_date = None, end_date = None\<rparr>"
  let ?from = "\<lparr>daterange_pk = 1, start_date = Some (2024, 1, 1), end_date = None\<rparr>"
  let ?upto = "\<lparr>daterange_pk = 1, start_date = None, end_date = Some (2024, 12, 31)\<rparr>"
  let ?both = "\<lparr>daterange_pk = 1, start_date = Some (2024, 1, 1), end_date = Some (2024, 12, 31)\<rparr>"
  have 1: "fst (DateRangeAvailability_available (2024, 6, 15) ?none ?db) = Inr True"
    using date_range_available_cases [of "(2024, 6, 15)" ?none ?db] by simp
  have 2: "fst (DateRangeAvailability_available (2023, 12, 31) ?from ?db) = Inr False"
    using date_range_available_cases [of "(2023, 12, 31)" ?from ?db] by simp
  have 3: "fst (DateRangeAvailability_available (2025, 1, 1) ?upto ?db) = Inr False"
    using date_range_available_cases [of "(2025, 1, 1)" ?upto ?db] by simp
  have 4: "fst (DateRangeAvailability_available (2024, 6, 15) ?both ?db) = Inr True"
    using date_range_available_cases [of "(2024, 6, 15)" ?both ?db] by simp
  have 5: "fst (DateRangeAvailability_available (2025, 1, 1) ?both ?db) = Inr False"
    using date_range_available_cases [of "(2025, 1, 1)" ?both ?db] by simp
  from 1 2 3 4 5 show ?thesis by blast
qed

text \<open>
  C10. For a DateRangeAvailability with both bounds set and \<open>start_date > end_date\<close>,
  \<open>available()\<close> returns false on every day \<open>T\<close>: no day is both on or after
  \<open>start_date\<close> and on or before \<open>end_date\<close>.
\<close>

theorem date_range_empty_window:
  assumes "start_date self = Some s" and "end_date self = Some e" and "e < s"
  shows "DateRangeAvailability_available T self db = (Inr False, self, db)
         \<and> \<not> (s \<le> T \<and> T \<le> e)"
proof -
  have w: "\<not> (s \<le> T \<and> T \<le> e)" using assms(3) by auto
  then have "T < s \<or> e < T" by auto
  with assms(1,2) have "DateRangeAvailability_available T self db = (Inr False, self, db)"
    by (auto simp: date_range_available_eq)
  with w show ?thesis by simp
qed

theorem date_range_empty_window_witness:
  "start_date \<lparr>daterange_pk = 1, start_date = Some (2024, 12, 31), end_date = Some (2024, 1, 1)\<rparr>
     = Some (2024, 12, 31)
   \<and> end_date \<lparr>daterange_pk = 1, start_date = Some (2024, 12, 31), end_date = Some (2024, 1, 1)\<rparr>
     = Some (2024, 1, 1)
   \<and> ((2024, 1, 1) :: date) < (2024, 12, 31)
   \<and> DateRangeAvailability_available (2024, 6, 15)
        \<lparr>daterange_pk = 1, start_date = Some (2024, 12, 31), end_date = Some (2024, 1, 1)\<rparr>
        \<lparr>boolean_rows = [], countdown_rows = [], daterange_rows = [],
           integer_min = - 9223372036854775808, integer_max = 9223372036854775807\<rparr>
      = (Inr False,
         \<lparr>daterange_pk = 1, start_date = Some (2024, 12, 31), end_date = Some (2024, 1, 1)\<rparr>,
         \<lparr>boolean_rows = [], countdown_rows = [], daterange_rows = [],
           integer_min = - 9223372036854775808, integer_max = 9223372036854775807\<rparr>)"
proof -
  let ?self = "\<lparr>daterange_pk = 1, start_date = Some (2024, 12, 31), end_date = Some (2024, 1, 1)\<rparr>"
  let ?db = "\<lparr>boolean_rows = [], countdown_rows = [], daterange_rows = [],
           integer_min = - 9223372036854775808, integer_max = 9223372036854775807\<rparr>"
  have h1: "start_date ?self = Some (2024, 12, 31)" by simp
  have h2: "end_date ?self = Some (2024, 1, 1)" by simp
  have h3: "((2024, 1, 1) :: date) < (2024, 12, 31)" by simp
  from date_range_empty_window [OF h1 h2 h3, of "(2024, 6, 15)" ?db] h1 h2 h3
  show ?thesis by blast
qed

subsection \<open>BooleanAvailability\<close>

text \<open>
  C6. For a BooleanAvailability, \<open>available()\<close> returns the stored \<open>is_available\<close>
  flag; \<open>quantity_available(q)\<close> returns true for every \<open>q\<close>; \<open>record_purchase(q)\<close>
  does nothing for every \<open>q\<close>: it raises nothing and leaves the receiver, so
  \<open>is_available\<close>, and the database as they were. The two queries change nothing either.
\<close>

theorem boolean_availability_methods:
  "BooleanAvailability_available self db = (Inr (is_available self), self, db)
   \<and> BooleanAvailability_quantity_available self q db = (Inr True, self, db)
   \<and> BooleanAvailability_record_purchase self q db = (Inr (), self, db)
   \<and> is_available (fst (snd (BooleanAvailability_record_purchase self q db))) = is_available self"
  by (simp add: BooleanAvailability_available_def BooleanAvailability_quantity_available_def
        BooleanAvailability_record_purchase_def AvailabilityMixin_quantity_available_def
        AvailabilityMixin_record_purchase_def)

subsection \<open>Availability: dispatch to the strategy\<close>

text \<open>
  For the two strategy classes that declare the foreign key, the facade does what the
  strategy does: with exactly one row of the class pointing to the Availability, the
  outcome of the facade's call is the outcome of the row's method, and
  QuantityExceedsAvailable comes out as raised; with no such row, the call raises
  \<open>DoesNotExist\<close> and changes nothing.
\<close>

lemma objects_get_single: "filter p rows = [h] \<Longrightarrow> objects_get p rows = Inr h"
  by (simp add: objects_get_def)

lemma objects_get_none: "filter p rows = [] \<Longrightarrow> objects_get p rows = Inl DoesNotExist"
  by (simp add: objects_get_def)

lemma availability_boolean_delegates:
  assumes "gf (code (availability_type self)) = Inr BooleanAvailabilityClass"
    and "filter (\<lambda>r. BooleanAvailability.availability r = availability_pk self)
           (boolean_rows db) = [h]"
  shows "Availability_available gf T self db = (Inr (is_available h), self, db)"
    and "Availability_record_purchase gf self q db = (Inr (), self, db)"
  using assms
  by (simp_all add: Availability_available_def Availability_record_purchase_def
        Availability_helper_def objects_get_single BooleanAvailability_available_def
        BooleanAvailability_record_purchase_def AvailabilityMixin_record_purchase_def)

lemma availability_countdown_delegates:
  assumes "gf (code (availability_type self)) = Inr CountdownAvailabilityClass"
    and "filter (\<lambda>r. CountdownAvailability.availability r = availability_pk self)
           (countdown_rows db) = [h]"
  shows "Availability_available gf T self db = (Inr (0 < num_products h), self, db)"
    and "Availability_record_purchase gf self q db =
           (fst (CountdownAvailability_record_purchase h q db), self,
            snd (snd (CountdownAvailability_record_purchase h q db)))"
    and "num_products h < q \<Longrightarrow>
         Availability_record_purchase gf self q db = (Inl QuantityExceedsAvailable, self, db)"
  using assms
  by (simp_all add: Availability_available_def Availability_record_purchase_def
        Availability_helper_def objects_get_single CountdownAvailability_available_def
        record_purchase_raise split: prod.splits)

lemma availability_no_row:
  assumes "gf (code (availability_type self)) = Inr BooleanAvailabilityClass
             \<and> filter (\<lambda>r. BooleanAvailability.availability r = availability_pk self)
                  (boolean_rows db) = []
           \<or> gf (code (availability_type self)) = Inr CountdownAvailabilityClass
             \<and> filter (\<lambda>r. CountdownAvailability.availability r = availability_pk self)
                  (countdown_rows db) = []"
  shows "Availability_available gf T self db = (Inl DoesNotExist, self, db)"
    and "Availability_record_purchase gf self q db = (Inl DoesNotExist, self, db)"
  using assms
  by (auto simp: Availability_available_def Availability_record_purchase_def
        Availability_helper_def objects_get_none)

text \<open>
  An Availability whose code resolves to DateRangeAvailability never reaches a strategy:
  both calls raise \<open>FieldError\<close>, whatever rows the database holds.
\<close>

lemma availability_date_range_field_error:
  assumes "gf (code (availability_type self)) = Inr DateRangeAvailabilityClass"
  shows "Availability_available gf T self db = (Inl FieldError, self, db)"
    and "Availability_record_purchase gf self q db = (Inl FieldError, self, db)"
  using assms
  by (simp_all add: Availability_available_def Availability_record_purchase_def
        Availability_helper_def)

text \<open>
  C7. The claim: for every Availability, \<open>available()\<close> resolves the strategy instance
  of its identity through \<open>availability_type.code\<close> and returns that instance's
  \<open>available()\<close>, \<open>record_purchase(quantity)\<close> runs the instance's
  \<open>record_purchase\<close>, and the only failures are the strategy's
  QuantityExceedsAvailable and the lookup failure for a missing row. The code at an
  Availability of the date-range type, with one DateRangeAvailability row without bounds in
  the database, on 2024-06-15: the row's own \<open>available()\<close> returns true and its
  \<open>record_purchase(1)\<close> returns, but \<open>Availability.available()\<close> and
  \<open>Availability.record_purchase(1)\<close> both raise \<open>FieldError\<close>.
\<close>

theorem availability_date_range_unreachable:
  "Availability_available gf_class_name (2024, 6, 15)
     \<lparr>availability_pk = 1,
      availability_type = \<lparr>name = ''Date range'', code = ''DateRangeAvailability''\<rparr>\<rparr>
     \<lparr>boolean_rows = [], countdown_rows = [],
      daterange_rows = [\<lparr>daterange_pk = 1, start_date = None, end_date = None\<rparr>],
           integer_min = - 9223372036854775808, integer_max = 9223372036854775807\<rparr>
   = (Inl FieldError,
      \<lparr>availability_pk = 1,
       availability_type = \<lparr>name = ''Date range'', code = ''DateRangeAvailability''\<rparr>\<rparr>,
      \<lparr>boolean_rows = [], countdown_rows = [],
       daterange_rows = [\<lparr>daterange_pk = 1, start_date = None, end_date = None\<rparr>],
           integer_min = - 9223372036854775808, integer_max = 9223372036854775807\<rparr>)
   \<and> Availability_record_purchase gf_class_name
     \<lparr>availability_pk = 1,
      availability_type = \<lparr>name = ''Date range'', code = ''DateRangeAvailability''\<rparr>\<rparr> 1
     \<lparr>boolean_rows = [], countdown_rows = [],
      daterange_rows = [\<lparr>daterange_pk = 1, start_date = None, end_date = None\<rparr>],
           integer_min = - 9223372036854775808, integer_max = 9223372036854775807\<rparr>
   = (Inl FieldError,
      \<lparr>availability_pk = 1,
       availability_type = \<lparr>name = ''Date range'', code = ''DateRangeAvailability''\<rparr>\<rparr>,
      \<lparr>boolean_rows = [], countdown_rows = [],
       daterange_rows = [\<lparr>daterange_pk = 1, start_date = None, end_date = None\<rparr>],
           integer_min = - 9223372036854775808, integer_max = 9223372036854775807\<rparr>)
   \<and> fst (DateRangeAvailability_available (2024, 6, 15)
       \<lparr>daterange_pk = 1, start_date = None, end_date = None\<rparr>
       \<lparr>boolean_rows = [], countdown_rows = [],
        daterange_rows = [\<lparr>daterange_pk = 1, start_date = None, end_date = None\<rparr>],
           integer_min = - 9223372036854775808, integer_max = 9223372036854775807\<rparr>) = Inr True
   \<and> fst (DateRangeAvailability_record_purchase
       \<lparr>daterange_pk = 1, start_date = None, end_date = None\<rparr> 1
       \<lparr>boolean_rows = [], countdown_rows = [],
        daterange_rows = [\<lparr>daterange_pk = 1, start_date = None, end_date = None\<rparr>],
           integer_min = - 9223372036854775808, integer_max = 9223372036854775807\<rparr>) = Inr ()"
  by (simp add: Availability_available_def Availability_record_purchase_def
        Availability_helper_def gf_class_name_def DateRangeAvailability_available_def
        DateRangeAvailability_record_purchase_def AvailabilityMixin_record_purchase_def)

subsection \<open>Calls one after another, and calls that overlap\<close>

text \<open>
  The two steps of a call, run with nothing between them, are the method
  \<open>Availability.record_purchase\<close>: same database after, same outcome.
\<close>

lemma run_one_call:
  "store (run_step gf a q (Write i) (run_step gf a q (Read i) c))
     = snd (snd (Availability_record_purchase gf a q (store c)))"
  by (auto simp: Availability_record_purchase_def helper_record_purchase_def
        split: sum.splits strategy.splits prod.splits)

lemma run_one_call_outcome:
  "outcomes (run_step gf a q (Write i) (run_step gf a q (Read i) c)) i
     = Some (fst (Availability_record_purchase gf a q (store c)))"
  by (auto simp: Availability_record_purchase_def helper_record_purchase_def
        split: sum.splits strategy.splits prod.splits)

text \<open>Saving the only row of an Availability leaves it the only row of that Availability.\<close>

lemma filter_save_row:
  assumes "filter p rows = [h]" and "distinct (map key rows)" and "key r = key h" and "p r"
  shows "filter p (save_row key r rows) = [r]"
proof -
  have "h \<in> set (filter p rows)" using assms(1) by simp
  then have hin: "h \<in> set rows" and ph: "p h" by simp_all
  have "filter p (map (\<lambda>x. if key x = key r then r else x) rows) = [r]"
    using assms(1,2) hin
  proof (induction rows)
    case Nil then show ?case by simp
  next
    case (Cons x xs)
    show ?case
    proof (cases "key x = key r")
      case True
      then have "x = h" using Cons.prems assms(3) by (auto simp: image_iff)
      have "\<forall>y \<in> set xs. key y \<noteq> key r" using Cons.prems(2) True by (auto simp: image_iff)
      then have "map (\<lambda>x. if key x = key r then r else x) xs = xs" by (induction xs) auto
      moreover have "filter p xs = []" using Cons.prems(1) \<open>x = h\<close> ph
        by simp
      ultimately show ?thesis using True assms(4) by simp
    next
      case False
      then have "x \<noteq> h" using assms(3) by auto
      then have "\<not> p x" using Cons.prems(1) by (auto split: if_splits)
      then show ?thesis using Cons False \<open>x \<noteq> h\<close> by auto
    qed
  qed
  moreover have "key r \<in> set (map key rows)" using hin assms(3) by (auto simp: image_iff)
  ultimately show ?thesis by (simp add: save_row_def)
qed

lemma map_key_save_row:
  "key r \<in> set (map key rows) \<Longrightarrow> map key (save_row key r rows) = map key rows"
  by (induction rows) (auto simp: save_row_def)

lemma not_taken_of_single:
  assumes "filter (\<lambda>r. CountdownAvailability.availability r = k) rows = [h]"
  shows "\<not> availability_taken h rows"
proof -
  have "h \<in> set (filter (\<lambda>r. CountdownAvailability.availability r = k) rows)"
    using assms by simp
  then have hk: "CountdownAvailability.availability h = k" by simp
  have "x = h" if "x \<in> set rows" and "CountdownAvailability.availability x = k" for x
  proof -
    from that have "x \<in> set (filter (\<lambda>r. CountdownAvailability.availability r = k) rows)"
      by simp
    with assms show ?thesis by simp
  qed
  with hk show ?thesis
    by (auto simp: availability_taken_def filter_empty_conv)
qed

lemma one_call_in_turn:
  assumes gf: "gf (code (availability_type a)) = Inr CountdownAvailabilityClass"
    and f: "filter (\<lambda>r. CountdownAvailability.availability r = availability_pk a)
              (countdown_rows (store c)) = [h]"
    and d: "distinct (map countdown_pk (countdown_rows (store c)))"
    and pos: "1 \<le> num_products h"
    and rng: "in_integer_range (store c) (num_products h - 1)"
  shows "run_step gf a 1 (Write i) (run_step gf a 1 (Read i) c)
           = c\<lparr>instances := (instances c)(i \<mapsto> CountdownHelper h),
               outcomes := (outcomes c)(i \<mapsto> Inr ()),
               store := (store c)\<lparr>countdown_rows :=
                 save_row countdown_pk (h\<lparr>num_products := num_products h - 1\<rparr>)
                   (countdown_rows (store c))\<rparr>\<rparr>
       \<and> filter (\<lambda>r. CountdownAvailability.availability r = availability_pk a)
           (save_row countdown_pk (h\<lparr>num_products := num_products h - 1\<rparr>)
              (countdown_rows (store c)))
         = [h\<lparr>num_products := num_products h - 1\<rparr>]
       \<and> distinct (map countdown_pk
           (save_row countdown_pk (h\<lparr>num_products := num_products h - 1\<rparr>)
              (countdown_rows (store c))))"
proof -
  let ?h = "h\<lparr>num_products := num_products h - 1\<rparr>"
  let ?rows = "countdown_rows (store c)"
  have "h \<in> set (filter (\<lambda>r. CountdownAvailability.availability r = availability_pk a) ?rows)"
    using f by simp
  then have hin: "h \<in> set ?rows"
    and hk: "CountdownAvailability.availability h = availability_pk a" by simp_all
  have rd: "Availability_helper gf a (store c) = Inr (CountdownHelper h)"
    using gf f by (simp add: Availability_helper_def objects_get_single)
  have nt: "\<not> availability_taken h ?rows" using f by (rule not_taken_of_single)
  have wr: "CountdownAvailability_record_purchase h 1 (store c)
              = (Inr (), ?h, (store c)\<lparr>countdown_rows := save_row countdown_pk ?h ?rows\<rparr>)"
    using pos rng nt by (rule record_purchase_ok)
  have 1: "run_step gf a 1 (Write i) (run_step gf a 1 (Read i) c)
              = c\<lparr>instances := (instances c)(i \<mapsto> CountdownHelper h),
                  outcomes := (outcomes c)(i \<mapsto> Inr ()),
                  store := (store c)\<lparr>countdown_rows := save_row countdown_pk ?h ?rows\<rparr>\<rparr>"
    using rd wr by (simp add: helper_record_purchase_def)
  have 2: "filter (\<lambda>r. CountdownAvailability.availability r = availability_pk a)
          (save_row countdown_pk ?h ?rows) = [?h]"
    using f d by (rule filter_save_row) (simp_all add: hk)
  have "countdown_pk ?h \<in> set (map countdown_pk ?rows)" using hin by (auto simp: image_iff)
  then have "map countdown_pk (save_row countdown_pk ?h ?rows) = map countdown_pk ?rows"
    by (rule map_key_save_row)
  then have 3: "distinct (map countdown_pk (save_row countdown_pk ?h ?rows))"
    using d by simp
  from 1 2 3 show ?thesis by blast
qed

lemma one_after_another_Suc:
  "one_after_another (Suc k) = one_after_another k @ [Read k, Write k]"
  by (simp add: one_after_another_def)

lemma calls_in_turn_invariant:
  assumes gf: "gf (code (availability_type a)) = Inr CountdownAvailabilityClass"
    and f: "filter (\<lambda>r. CountdownAvailability.availability r = availability_pk a)
              (countdown_rows db) = [h]"
    and d: "distinct (map countdown_pk (countdown_rows db))"
    and n: "num_products h = int n"
    and lo: "integer_min db \<le> 0" and hi: "int n \<le> integer_max db"
    and k: "k \<le> n"
  shows "filter (\<lambda>r. CountdownAvailability.availability r = availability_pk a)
           (countdown_rows (store (run_schedule gf a 1 (one_after_another k) db)))
         = [h\<lparr>num_products := int n - int k\<rparr>]
       \<and> distinct (map countdown_pk
           (countdown_rows (store (run_schedule gf a 1 (one_after_another k) db))))
       \<and> integer_min (store (run_schedule gf a 1 (one_after_another k) db)) = integer_min db
       \<and> integer_max (store (run_schedule gf a 1 (one_after_another k) db)) = integer_max db
       \<and> (\<forall>i. outcomes (run_schedule gf a 1 (one_after_another k) db) i
                = (if i < k then Some (Inr ()) else None))"
  using k
proof (induction k)
  case 0
  have "h\<lparr>num_products := int n\<rparr> = h" using n by simp
  then show ?case using f d by (simp add: run_schedule_def one_after_another_def)
next
  case (Suc k)
  let ?c = "run_schedule gf a 1 (one_after_another k) db"
  let ?h = "h\<lparr>num_products := int n - int k\<rparr>"
  from Suc have IH:
    "filter (\<lambda>r. CountdownAvailability.availability r = availability_pk a)
       (countdown_rows (store ?c)) = [?h]"
    "distinct (map countdown_pk (countdown_rows (store ?c)))"
    "integer_min (store ?c) = integer_min db"
    "integer_max (store ?c) = integer_max db"
    "\<forall>i. outcomes ?c i = (if i < k then Some (Inr ()) else None)"
    by simp_all
  have pos: "1 \<le> num_products ?h" using Suc.prems by simp
  have rng: "in_integer_range (store ?c) (num_products ?h - 1)"
    using Suc.prems lo hi IH(3,4) by (simp add: in_integer_range_def)
  have run: "run_schedule gf a 1 (one_after_another (Suc k)) db
               = run_step gf a 1 (Write k) (run_step gf a 1 (Read k) ?c)"
    by (simp add: run_schedule_def one_after_another_Suc)
  have h': "?h\<lparr>num_products := num_products ?h - 1\<rparr> = h\<lparr>num_products := int n - int (Suc k)\<rparr>"
    by simp
  from one_call_in_turn [of gf a ?c ?h k, OF gf IH(1) IH(2) pos rng]
  have st: "run_step gf a 1 (Write k) (run_step gf a 1 (Read k) ?c)
           = ?c\<lparr>instances := (instances ?c)(k \<mapsto> CountdownHelper ?h),
               outcomes := (outcomes ?c)(k \<mapsto> Inr ()),
               store := (store ?c)\<lparr>countdown_rows :=
                 save_row countdown_pk (h\<lparr>num_products := int n - int (Suc k)\<rparr>)
                   (countdown_rows (store ?c))\<rparr>\<rparr>"
    and fl: "filter (\<lambda>r. CountdownAvailability.availability r = availability_pk a)
           (save_row countdown_pk (h\<lparr>num_products := int n - int (Suc k)\<rparr>)
              (countdown_rows (store ?c)))
         = [h\<lparr>num_products := int n - int (Suc k)\<rparr>]"
    and ds: "distinct (map countdown_pk
           (save_row countdown_pk (h\<lparr>num_products := int n - int (Suc k)\<rparr>)
              (countdown_rows (store ?c))))"
    unfolding h' by blast+
  show ?case
    unfolding run st using fl ds IH(3,4,5) by (auto simp del: of_nat_Suc)
qed


text \<open>
  C8, as stated: \<open>N\<close> concurrent \<open>record_purchase(1)\<close> calls against
  \<open>num_products = N\<close> end with \<open>num_products = 0\<close>, no call failing or succeeding
  out of turn, the read-modify-write being serialized. The code serializes nothing. With
  \<open>N = 2\<close> and two calls that both read before either writes, both calls return, and
  the stored \<open>num_products\<close> is 1: one purchase is lost.
\<close>

theorem overlapping_purchases_lose_update:
  "outcomes (run_schedule gf_class_name
       \<lparr>availability_pk = 7,
        availability_type = \<lparr>name = ''Countdown'', code = ''CountdownAvailability''\<rparr>\<rparr> 1
       [Read 0, Read 1, Write 0, Write 1]
       \<lparr>boolean_rows = [],
        countdown_rows = [\<lparr>countdown_pk = 1, availability = 7, num_products = 2\<rparr>],
        daterange_rows = [],
        integer_min = - 9223372036854775808, integer_max = 9223372036854775807\<rparr>) 0 = Some (Inr ())
   \<and> outcomes (run_schedule gf_class_name
       \<lparr>availability_pk = 7,
        availability_type = \<lparr>name = ''Countdown'', code = ''CountdownAvailability''\<rparr>\<rparr> 1
       [Read 0, Read 1, Write 0, Write 1]
       \<lparr>boolean_rows = [],
        countdown_rows = [\<lparr>countdown_pk = 1, availability = 7, num_products = 2\<rparr>],
        daterange_rows = [],
        integer_min = - 9223372036854775808, integer_max = 9223372036854775807\<rparr>) 1 = Some (Inr ())
   \<and> countdown_rows (store (run_schedule gf_class_name
       \<lparr>availability_pk = 7,
        availability_type = \<lparr>name = ''Countdown'', code = ''CountdownAvailability''\<rparr>\<rparr> 1
       [Read 0, Read 1, Write 0, Write 1]
       \<lparr>boolean_rows = [],
        countdown_rows = [\<lparr>countdown_pk = 1, availability = 7, num_products = 2\<rparr>],
        daterange_rows = [],
        integer_min = - 9223372036854775808, integer_max = 9223372036854775807\<rparr>))
      = [\<lparr>countdown_pk = 1, availability = 7, num_products = 1\<rparr>]"
  by (simp add: run_schedule_def Availability_helper_def gf_class_name_def objects_get_def
        helper_record_purchase_def CountdownAvailability_record_purchase_def
        CountdownAvailability_save_def in_integer_range_def availability_taken_def
        save_row_def Let_def)

text \<open>
  C8, amended. \<open>N\<close> calls \<open>record_purchase(1)\<close> on one Availability of the countdown
  type, made one after another (each call reads and writes before the next call reads),
  against the one CountdownAvailability row of that Availability with
  \<open>num_products = N\<close>, in a database whose primary keys are distinct and whose integer
  column holds the values from 0 to \<open>N\<close>: every call returns without raising, and the
  one row of that Availability ends with \<open>num_products = 0\<close>. The code does not put
  the calls in this order itself.
\<close>

theorem purchases_one_after_another_reach_zero:
  assumes "gf (code (availability_type a)) = Inr CountdownAvailabilityClass"
    and "filter (\<lambda>r. CountdownAvailability.availability r = availability_pk a)
           (countdown_rows db) = [h]"
    and "distinct (map countdown_pk (countdown_rows db))"
    and "num_products h = int n"
    and "integer_min db \<le> 0" and "int n \<le> integer_max db"
  shows "(\<forall>i<n. outcomes (run_schedule gf a 1 (one_after_another n) db) i = Some (Inr ()))
       \<and> filter (\<lambda>r. CountdownAvailability.availability r = availability_pk a)
           (countdown_rows (store (run_schedule gf a 1 (one_after_another n) db)))
         = [h\<lparr>num_products := 0\<rparr>]"
  using calls_in_turn_invariant [of gf a db h n n, OF assms] by simp

theorem purchases_one_after_another_reach_zero_witness:
  "gf_class_name (code (availability_type
       (\<lparr>availability_pk = 7,
        availability_type = \<lparr>name = ''Countdown'', code = ''CountdownAvailability''\<rparr>\<rparr>)))
     = Inr CountdownAvailabilityClass
   \<and> outcomes (run_schedule gf_class_name
       \<lparr>availability_pk = 7,
        availability_type = \<lparr>name = ''Countdown'', code = ''CountdownAvailability''\<rparr>\<rparr> 1
       (one_after_another 2)
       \<lparr>boolean_rows = [],
        countdown_rows = [\<lparr>countdown_pk = 1, availability = 7, num_products = 2\<rparr>],
        daterange_rows = [],
        integer_min = - 9223372036854775808, integer_max = 9223372036854775807\<rparr>) 0 = Some (Inr ())
   \<and> outcomes (run_schedule gf_class_name
       \<lparr>availability_pk = 7,
        availability_type = \<lparr>name = ''Countdown'', code = ''CountdownAvailability''\<rparr>\<rparr> 1
       (one_after_another 2)
       \<lparr>boolean_rows = [],
        countdown_rows = [\<lparr>countdown_pk = 1, availability = 7, num_products = 2\<rparr>],
        daterange_rows = [],
        integer_min = - 9223372036854775808, integer_max = 9223372036854775807\<rparr>) 1 = Some (Inr ())
   \<and> filter (\<lambda>r. CountdownAvailability.availability r = 7)
        (countdown_rows (store (run_schedule gf_class_name
       \<lparr>availability_pk = 7,
        availability_type = \<lparr>name = ''Countdown'', code = ''CountdownAvailability''\<rparr>\<rparr> 1
       (one_after_another 2)
       \<lparr>boolean_rows = [],
        countdown_rows = [\<lparr>countdown_pk = 1, availability = 7, num_products = 2\<rparr>],
        daterange_rows = [],
        integer_min = - 9223372036854775808, integer_max = 9223372036854775807\<rparr>)))
      = [\<lparr>countdown_pk = 1, availability = 7, num_products = 0\<rparr>]"
proof -
  let ?a = "\<lparr>availability_pk = 7,
        availability_type = \<lparr>name = ''Countdown'', code = ''CountdownAvailability''\<rparr>\<rparr>"
  let ?h = "\<lparr>countdown_pk = 1, availability = 7, num_products = 2\<rparr>"
  let ?db = "\<lparr>boolean_rows = [], countdown_rows = [?h], daterange_rows = [],
               integer_min = - 9223372036854775808, integer_max = 9223372036854775807\<rparr>"
  have 1: "gf_class_name (code (availability_type ?a)) = Inr CountdownAvailabilityClass"
    by (simp add: gf_class_name_def)
  have 2: "filter (\<lambda>r. CountdownAvailability.availability r = availability_pk ?a)
             (countdown_rows ?db) = [?h]" by simp
  have 3: "distinct (map countdown_pk (countdown_rows ?db))" by simp
  have 4: "num_products ?h = int 2" by simp
  have 5: "integer_min ?db \<le> 0" and 6: "int 2 \<le> integer_max ?db" by simp_all
  note t = purchases_one_after_another_reach_zero [of gf_class_name ?a ?db ?h 2, OF 1 2 3 4 5 6]
  from t have "outcomes (run_schedule gf_class_name ?a 1 (one_after_another 2) ?db) 0
                 = Some (Inr ())"
    and "outcomes (run_schedule gf_class_name ?a 1 (one_after_another 2) ?db) 1
                 = Some (Inr ())"
    by simp_all
  moreover from t have "filter (\<lambda>r. CountdownAvailability.availability r = 7)
        (countdown_rows (store (run_schedule gf_class_name ?a 1 (one_after_another 2) ?db)))
      = [\<lparr>countdown_pk = 1, availability = 7, num_products = 0\<rparr>]"
    by simp
  ultimately show ?thesis using 1 by simp
qed

end
